theory Spec2Isabelle
  imports Main "HOL-Library.Multiset"
begin

section \<open>Phase-2 backend: task model, request schemas\<close>

text \<open>
  Source: \<^verbatim>\<open>Phase-2/backend/app/models/task.py\<close>.

  A row of the table \<^verbatim>\<open>tasks\<close>. The UUID primary key is an opaque natural number,
  the two naive-UTC datetimes are integers (a count of clock ticks), Python's
  \<^verbatim>\<open>Optional[str]\<close> is \<open>string option\<close>. The field \<^verbatim>\<open>id\<close> of the source is
  \<open>task_id\<close> here, since \<open>id\<close> is the identity function of HOL.
\<close>

record task =
  task_id :: nat
  user_id :: string
  title :: string
  description :: "string option"
  status :: string
  priority :: "string option"
  created_at :: int
  updated_at :: int

text \<open>
  \<^verbatim>\<open>TaskUpdateRequest\<close>: four optional fields; \<open>None\<close> is "not provided" (the
  schema's default).
\<close>

record TaskUpdateRequest =
  upd_title :: "string option"
  upd_description :: "string option"
  upd_status :: "string option"
  upd_priority :: "string option"

text \<open>\<^verbatim>\<open>TaskCreateRequest\<close>: a title, an optional description, an optional priority.\<close>

record TaskCreateRequest =
  new_title :: string
  new_description :: "string option"
  new_priority :: "string option"

subsection \<open>Python's \<^verbatim>\<open>str.strip()\<close>\<close>

text \<open>
  \<^verbatim>\<open>str.strip()\<close> with no argument removes leading and trailing whitespace. On
  ASCII text the whitespace characters are the space, the controls 9 to 13 and the
  separators 28 to 31.
\<close>

definition isspace :: "char \<Rightarrow> bool" where
  "isspace c = (let n = of_char c :: nat in n = 32 \<or> (9 \<le> n \<and> n \<le> 13) \<or> (28 \<le> n \<and> n \<le> 31))"

definition strip :: "string \<Rightarrow> string" where
  "strip s = rev (dropWhile isspace (rev (dropWhile isspace s)))"

subsection \<open>Field validators of the request schemas\<close>

text \<open>
  A pydantic \<^verbatim>\<open>field_validator\<close> either returns the (possibly rewritten) value or
  raises \<^verbatim>\<open>ValueError\<close> with a message; the framework turns the latter into a 422
  response before the route handler runs. \<open>Inl msg\<close> is the raised \<^verbatim>\<open>ValueError\<close>.
\<close>

definition validate_title :: "string option \<Rightarrow> string + string option" where
  "validate_title v =
     (case v of
        Some s \<Rightarrow>
          (let s' = strip s in
           if s' = [] then Inl ''Title cannot be empty or whitespace'' else Inr (Some s'))
      | None \<Rightarrow> Inr None)"

definition validate_status :: "string option \<Rightarrow> string + string option" where
  "validate_status v =
     (if v \<noteq> None \<and> the v \<notin> set [''pending'', ''in-progress'', ''completed'']
      then Inl ''status must be one of: pending, in-progress, completed''
      else Inr v)"

definition validate_priority :: "string option \<Rightarrow> string + string option" where
  "validate_priority v =
     (if v \<noteq> None \<and> the v \<notin> set [''low'', ''medium'', ''high'']
      then Inl ''priority must be one of: low, medium, high''
      else Inr v)"

section \<open>Task repository\<close>

text \<open>
  Source: \<^verbatim>\<open>Phase-2/backend/app/repositories/task_repository.py\<close>.

  The database session is the table's rows, in insertion order, together with a log
  of the repository methods entered so far (what a test's call-count assertion
  observes). Every repository method returns its result and the session after it.
  The store itself is taken to answer every statement: a \<^verbatim>\<open>SQLAlchemyError\<close> arises
  in the model only where the table's own declaration causes it, on inserting a
  primary key that is already there.
\<close>

datatype repo_call =
    FindByUserId string
  | FindById string nat
  | Create string
  | Update string nat
  | SoftDelete string nat

record session =
  rows :: "task list"
  calls :: "repo_call list"

definition logged :: "repo_call \<Rightarrow> session \<Rightarrow> session" where
  "logged c s = s\<lparr>calls := calls s @ [c]\<rparr>"

text \<open>
  \<^verbatim>\<open>select(Task).where(user_id == .., status != "deleted").order_by(created_at.desc())\<close>.
  SQL leaves the relative order of rows with equal \<^verbatim>\<open>created_at\<close> open; the model
  fixes one such order.
\<close>

definition find_by_user_id :: "session \<Rightarrow> string \<Rightarrow> task list \<times> session" where
  "find_by_user_id s uid =
     (rev (sort_key created_at
        (filter (\<lambda>t. user_id t = uid \<and> status t \<noteq> ''deleted'') (rows s))),
      logged (FindByUserId uid) s)"

text \<open>\<^verbatim>\<open>select(Task).where(id == task_id, user_id == user_id)\<close>, then \<^verbatim>\<open>.first()\<close>.\<close>

definition find_by_id :: "session \<Rightarrow> string \<Rightarrow> nat \<Rightarrow> task option \<times> session" where
  "find_by_id s uid tid =
     (find (\<lambda>t. task_id t = tid \<and> user_id t = uid) (rows s),
      logged (FindById uid tid) s)"

text \<open>
  What the runtime generates for a new row: the \<^verbatim>\<open>uuid4\<close> of the primary key and
  the two readings of \<^verbatim>\<open>datetime.utcnow\<close>, one per \<^verbatim>\<open>default_factory\<close>.
\<close>

record generated =
  uuid4 :: nat
  utcnow_created :: int
  utcnow_updated :: int

text \<open>
  The dict \<^verbatim>\<open>task_data\<close>: \<^verbatim>\<open>title\<close> is read by subscript, \<^verbatim>\<open>description\<close> and
  \<^verbatim>\<open>priority\<close> by \<^verbatim>\<open>.get\<close>, where \<open>None\<close> for the priority is the absent key,
  for which \<^verbatim>\<open>.get("priority", "medium")\<close> gives the default.
\<close>

record task_data =
  td_title :: string
  td_description :: "string option"
  td_priority :: "string option"

datatype db_error = SQLAlchemyError

definition create ::
  "session \<Rightarrow> generated \<Rightarrow> string \<Rightarrow> task_data \<Rightarrow> (db_error + task) \<times> session" where
  "create s g uid d =
     (let t = \<lparr>task_id = uuid4 g, user_id = uid, title = td_title d,
                description = td_description d, status = ''pending'',
                priority = Some (case td_priority d of None \<Rightarrow> ''medium'' | Some p \<Rightarrow> p),
                created_at = utcnow_created g, updated_at = utcnow_updated g\<rparr>;
          s1 = logged (Create uid) s
      in if uuid4 g \<in> set (map task_id (rows s))
         then (Inl SQLAlchemyError, s1)
         else (Inr t, s1\<lparr>rows := rows s @ [t]\<rparr>))"

text \<open>
  The dict \<^verbatim>\<open>updates\<close> handed to \<^verbatim>\<open>TaskRepository.update\<close>: one slot per key the
  service can put there, \<open>None\<close> for an absent key. The value under
  \<^verbatim>\<open>description\<close> may itself be Python's \<^verbatim>\<open>None\<close>. Every key is an attribute of
  \<^verbatim>\<open>Task\<close>, so \<^verbatim>\<open>hasattr\<close> holds for each and \<^verbatim>\<open>setattr\<close> writes it.
\<close>

record update_data =
  ud_title :: "string option"
  ud_description :: "string option option"
  ud_status :: "string option"
  ud_priority :: "string option"

definition apply_updates :: "update_data \<Rightarrow> task \<Rightarrow> task" where
  "apply_updates u t =
     (let t1 = (case ud_title u of None \<Rightarrow> t | Some v \<Rightarrow> t\<lparr>title := v\<rparr>);
          t2 = (case ud_description u of None \<Rightarrow> t1 | Some v \<Rightarrow> t1\<lparr>description := v\<rparr>);
          t3 = (case ud_status u of None \<Rightarrow> t2 | Some v \<Rightarrow> t2\<lparr>status := v\<rparr>);
          t4 = (case ud_priority u of None \<Rightarrow> t3 | Some v \<Rightarrow> t3\<lparr>priority := Some v\<rparr>)
      in t4)"

text \<open>
  \<^verbatim>\<open>session.add(task); session.commit()\<close> on the object that \<^verbatim>\<open>find_by_id\<close>
  returned writes that row back: the first row the selection matches.
\<close>

fun commit_row :: "('a \<Rightarrow> bool) \<Rightarrow> 'a \<Rightarrow> 'a list \<Rightarrow> 'a list" where
  "commit_row P y [] = []"
| "commit_row P y (x # xs) = (if P x then y # xs else x # commit_row P y xs)"

definition update ::
  "session \<Rightarrow> int \<Rightarrow> string \<Rightarrow> nat \<Rightarrow> update_data \<Rightarrow> task option \<times> session" where
  "update s now uid tid updates =
     (case find_by_id (logged (Update uid tid) s) uid tid of
        (None, s1) \<Rightarrow> (None, s1)
      | (Some t, s1) \<Rightarrow>
          (let t' = (apply_updates updates t)\<lparr>updated_at := now\<rparr>
           in (Some t',
               s1\<lparr>rows := commit_row (\<lambda>r. task_id r = tid \<and> user_id r = uid) t' (rows s1)\<rparr>)))"

definition soft_delete :: "session \<Rightarrow> int \<Rightarrow> string \<Rightarrow> nat \<Rightarrow> bool \<times> session" where
  "soft_delete s now uid tid =
     (case find_by_id (logged (SoftDelete uid tid) s) uid tid of
        (None, s1) \<Rightarrow> (False, s1)
      | (Some t, s1) \<Rightarrow>
          (let t' = t\<lparr>status := ''deleted'', updated_at := now\<rparr>
           in (True,
               s1\<lparr>rows := commit_row (\<lambda>r. task_id r = tid \<and> user_id r = uid) t' (rows s1)\<rparr>)))"

section \<open>Task service\<close>

text \<open>
  Source: \<^verbatim>\<open>Phase-2/backend/app/services/task_service.py\<close>.

  \<open>HTTPException code detail\<close> is FastAPI's exception; a service method returns
  \<open>Inl\<close> of it where the source raises. The catch-all \<^verbatim>\<open>except Exception\<close> of each
  method turns a repository error into status 500.
\<close>

datatype http_exception = HTTPException nat string

definition list_tasks :: "session \<Rightarrow> string \<Rightarrow> (http_exception + task list) \<times> session" where
  "list_tasks s uid = (case find_by_user_id s uid of (tasks, s1) \<Rightarrow> (Inr tasks, s1))"

definition create_task ::
  "session \<Rightarrow> generated \<Rightarrow> string \<Rightarrow> TaskCreateRequest \<Rightarrow> (http_exception + task) \<times> session" where
  "create_task s g uid task_request =
     (if new_title task_request = [] \<or> length (strip (new_title task_request)) = 0
      then (Inl (HTTPException 400 ''Task title cannot be empty''), s)
      else if (case new_description task_request of
                 None \<Rightarrow> False | Some d \<Rightarrow> d \<noteq> [] \<and> length d > 10000)
      then (Inl (HTTPException 400 ''Task description cannot exceed 10,000 characters''), s)
      else
        (let d = \<lparr>td_title = strip (new_title task_request),
                  td_description =
                    (case new_description task_request of
                       None \<Rightarrow> None
                     | Some d \<Rightarrow> if d \<noteq> [] then Some (strip d) else None),
                  td_priority =
                    Some (case new_priority task_request of
                            None \<Rightarrow> ''medium''
                          | Some p \<Rightarrow> if p \<noteq> [] then p else ''medium'')\<rparr>
         in case create s g uid d of
              (Inl e, s1) \<Rightarrow> (Inl (HTTPException 500 ''Failed to create task''), s1)
            | (Inr t, s1) \<Rightarrow> (Inr t, s1)))"

definition get_task :: "session \<Rightarrow> string \<Rightarrow> nat \<Rightarrow> (http_exception + task) \<times> session" where
  "get_task s uid tid =
     (case find_by_id s uid tid of
        (None, s1) \<Rightarrow> (Inl (HTTPException 404 ''Task not found''), s1)
      | (Some t, s1) \<Rightarrow> (Inr t, s1))"

definition update_task ::
  "session \<Rightarrow> int \<Rightarrow> string \<Rightarrow> nat \<Rightarrow> TaskUpdateRequest
     \<Rightarrow> (http_exception + task option) \<times> session" where
  "update_task s now uid tid updates =
     (case find_by_id s uid tid of
        (None, s1) \<Rightarrow> (Inl (HTTPException 404 ''Task not found''), s1)
      | (Some t, s1) \<Rightarrow>
          if status t = ''deleted''
          then (Inl (HTTPException 400 ''Cannot update deleted task''), s1)
          else if (case upd_title updates of
                     None \<Rightarrow> False | Some v \<Rightarrow> length (strip v) = 0)
          then (Inl (HTTPException 400 ''Task title cannot be empty''), s1)
          else if (case upd_description updates of
                     None \<Rightarrow> False | Some v \<Rightarrow> length v > 10000)
          then (Inl (HTTPException 400 ''Task description cannot exceed 10,000 characters''), s1)
          else
            (let d = \<lparr>ud_title = map_option strip (upd_title updates),
                      ud_description =
                        map_option (\<lambda>v. if v \<noteq> [] then Some (strip v) else None)
                          (upd_description updates),
                      ud_status = upd_status updates,
                      ud_priority = upd_priority updates\<rparr>
             in case update s1 now uid tid d of (updated_task, s2) \<Rightarrow> (Inr updated_task, s2)))"

definition delete_task ::
  "session \<Rightarrow> int \<Rightarrow> string \<Rightarrow> nat \<Rightarrow> (http_exception + bool) \<times> session" where
  "delete_task s now uid tid =
     (case find_by_id s uid tid of
        (None, s1) \<Rightarrow> (Inl (HTTPException 404 ''Task not found''), s1)
      | (Some t, s1) \<Rightarrow>
          if status t = ''deleted'' then (Inr True, s1)
          else (case soft_delete s1 now uid tid of (success, s2) \<Rightarrow> (Inr success, s2)))"

section \<open>Token verification\<close>

text \<open>
  Source: \<^verbatim>\<open>Phase-2/backend/app/core/auth.py\<close>.

  \<^verbatim>\<open>User\<close> is the identity extracted from verified claims. Its fields carry the
  prefix \<open>User_\<close>, since \<open>id\<close> is taken in HOL.
\<close>

record User =
  User_id :: string
  User_email :: string
  User_name :: "string option"

text \<open>
  A public key is an opaque number. The module-level \<^verbatim>\<open>_cache\<close> is
  \<open>JWKSCache option\<close>; its \<^verbatim>\<open>keys\<close> is the dict from key id to key.
\<close>

type_synonym pubkey = nat

record JWKSCache =
  keys :: "string \<rightharpoonup> pubkey"
  expires_at :: int

definition JWKS_CACHE_TTL :: int where
  "JWKS_CACHE_TTL = 300"

text \<open>
  One \<^verbatim>\<open>GET .../api/auth/jwks\<close> followed by \<^verbatim>\<open>raise_for_status()\<close> and
  \<^verbatim>\<open>response.json()\<close> has one of two outcomes: \<^verbatim>\<open>httpx\<close> raises an
  \<^verbatim>\<open>httpx.HTTPError\<close> (the transport failed, or the status was an error status), or
  the body is a key set, the list of its entries \<^verbatim>\<open>(kid, key)\<close>. The identity
  provider is a function from the number of requests already sent to the outcome of
  the next one.
\<close>

datatype jwks_response = Unreachable | KeySet "(string \<times> pubkey) list"

type_synonym provider = "nat \<Rightarrow> jwks_response"

record auth_state =
  cache :: "JWKSCache option"
  fetches :: nat

text \<open>
  The exceptions that travel inside \<^verbatim>\<open>verify_token\<close>: those of PyJWT, the
  \<^verbatim>\<open>httpx.HTTPError\<close>, and an \<^verbatim>\<open>HTTPException\<close> raised by the function itself,
  which none of its \<^verbatim>\<open>except\<close> clauses catches.
\<close>

datatype jwt_error =
    DecodeError
  | InvalidAlgorithmError
  | InvalidSignatureError
  | ExpiredSignatureError

datatype exn = Jwt jwt_error | HTTPError | Http http_exception

text \<open>
  \<^verbatim>\<open>_get_jwks\<close>: the cached dict while the cache is there and not expired, else one
  request; on success the cache is replaced, on failure the exception leaves the
  function before the assignment to \<^verbatim>\<open>_cache\<close>. The dict is built entry by entry,
  a later entry overwriting an earlier one with the same key id.
\<close>

definition get_jwks ::
  "provider \<Rightarrow> int \<Rightarrow> auth_state \<Rightarrow> (exn + (string \<rightharpoonup> pubkey)) \<times> auth_state" where
  "get_jwks prov now st =
     (case (case cache st of
              None \<Rightarrow> None
            | Some c \<Rightarrow> if now < expires_at c then Some (keys c) else None) of
        Some ks \<Rightarrow> (Inr ks, st)
      | None \<Rightarrow>
          (case prov (fetches st) of
             Unreachable \<Rightarrow> (Inl HTTPError, st\<lparr>fetches := fetches st + 1\<rparr>)
           | KeySet entries \<Rightarrow>
               (let ks = fold (\<lambda>(k, key) m. m(k \<mapsto> key)) entries Map.empty
                in (Inr ks,
                    st\<lparr>cache := Some \<lparr>keys = ks, expires_at = now + JWKS_CACHE_TTL\<rparr>,
                       fetches := fetches st + 1\<rparr>))))"

definition clear_jwks_cache :: "auth_state \<Rightarrow> auth_state" where
  "clear_jwks_cache st = st\<lparr>cache := None\<rparr>"

text \<open>
  A token, as far as the verification looks at it: the header's \<^verbatim>\<open>alg\<close> and
  \<^verbatim>\<open>kid\<close>, the claims \<^verbatim>\<open>exp\<close>, \<^verbatim>\<open>sub\<close>, \<^verbatim>\<open>email\<close>, \<^verbatim>\<open>name\<close>, and, for the
  signature, the public key under which it verifies (\<open>None\<close> when it verifies under
  no key). A string that is not three decodable segments is \<open>Undecodable\<close>. The
  argument of \<^verbatim>\<open>verify_token\<close> is such a string with or without the prefix
  \<^verbatim>\<open>"Bearer "\<close>.
\<close>

record jwt =
  alg :: string
  kid :: "string option"
  signer :: "pubkey option"
  claim_exp :: "int option"
  claim_sub :: "string option"
  claim_email :: "string option"
  claim_name :: "string option"

datatype compact = Undecodable | Compact jwt

datatype token = Token compact | Bearer compact

text \<open>
  The two PyJWT entry points the function calls. \<^verbatim>\<open>jwt.get_unverified_header\<close>
  decodes without verifying and hands back the header, here its \<^verbatim>\<open>kid\<close>.
  \<^verbatim>\<open>jwt.decode(token, key, algorithms=["RS256"], options={"verify_aud": False})\<close>
  decodes, checks the header's algorithm against the allowed list, verifies the
  signature, and only then validates the claims, where \<^verbatim>\<open>exp\<close> counts as expired
  when \<^verbatim>\<open>exp <= now\<close>.
\<close>

definition get_unverified_header :: "compact \<Rightarrow> jwt_error + string option" where
  "get_unverified_header c =
     (case c of Undecodable \<Rightarrow> Inl DecodeError | Compact t \<Rightarrow> Inr (kid t))"

definition jwt_decode :: "compact \<Rightarrow> pubkey \<Rightarrow> int \<Rightarrow> jwt_error + jwt" where
  "jwt_decode c key now =
     (case c of
        Undecodable \<Rightarrow> Inl DecodeError
      | Compact t \<Rightarrow>
          if alg t \<notin> set [''RS256''] then Inl InvalidAlgorithmError
          else if signer t \<noteq> Some key then Inl InvalidSignatureError
          else if (case claim_exp t of None \<Rightarrow> False | Some e \<Rightarrow> e \<le> now)
          then Inl ExpiredSignatureError
          else Inr t)"

text \<open>
  \<^verbatim>\<open>not kid or kid not in public_keys\<close> holds exactly when this lookup finds
  nothing: the key id is absent, empty, or not a key of the dict.
\<close>

definition lookup_kid :: "string option \<Rightarrow> (string \<rightharpoonup> pubkey) \<Rightarrow> pubkey option" where
  "lookup_kid k public_keys =
     (case k of None \<Rightarrow> None | Some v \<Rightarrow> if v = [] then None else public_keys v)"

text \<open>
  Lines 100 to 115 of \<^verbatim>\<open>verify_token\<close>: the key set is asked for first, then the
  header is read, then an unknown key id clears the cache and asks once more.
\<close>

definition resolve_key ::
  "provider \<Rightarrow> int \<Rightarrow> auth_state \<Rightarrow> compact \<Rightarrow> (exn + pubkey) \<times> auth_state" where
  "resolve_key prov now st c =
     (case get_jwks prov now st of
        (Inl e, st1) \<Rightarrow> (Inl e, st1)
      | (Inr public_keys, st1) \<Rightarrow>
          (case get_unverified_header c of
             Inl e \<Rightarrow> (Inl (Jwt e), st1)
           | Inr k \<Rightarrow>
               (case lookup_kid k public_keys of
                  Some key \<Rightarrow> (Inr key, st1)
                | None \<Rightarrow>
                    (case get_jwks prov now (clear_jwks_cache st1) of
                       (Inl e, st2) \<Rightarrow> (Inl e, st2)
                     | (Inr public_keys2, st2) \<Rightarrow>
                         (case lookup_kid k public_keys2 of
                            None \<Rightarrow>
                              (Inl (Http (HTTPException 401 ''Invalid token key'')), st2)
                          | Some key \<Rightarrow> (Inr key, st2))))))"

text \<open>Lines 117 to 138: decode under the resolved key, require \<^verbatim>\<open>sub\<close>, build the user.\<close>

definition decode_user :: "compact \<Rightarrow> pubkey \<Rightarrow> int \<Rightarrow> exn + User" where
  "decode_user c key now =
     (case jwt_decode c key now of
        Inl e \<Rightarrow> Inl (Jwt e)
      | Inr payload \<Rightarrow>
          (case claim_sub payload of
             None \<Rightarrow> Inl (Http (HTTPException 401 ''Invalid token: missing user id''))
           | Some u \<Rightarrow>
               if u = [] then Inl (Http (HTTPException 401 ''Invalid token: missing user id''))
               else Inr \<lparr>User_id = u,
                         User_email = (case claim_email payload of None \<Rightarrow> [] | Some e \<Rightarrow> e),
                         User_name = claim_name payload\<rparr>))"

text \<open>The three \<^verbatim>\<open>except\<close> clauses, in their order.\<close>

fun surfaced :: "exn \<Rightarrow> http_exception" where
  "surfaced (Jwt ExpiredSignatureError) =
     HTTPException 401 ''Token has expired. Please sign in again.''"
| "surfaced (Jwt e) = HTTPException 401 ''Invalid token''"
| "surfaced HTTPError = HTTPException 503 ''Auth server unavailable. Please try again.''"
| "surfaced (Http h) = h"

definition verify_token ::
  "provider \<Rightarrow> int \<Rightarrow> auth_state \<Rightarrow> token \<Rightarrow> (http_exception + User) \<times> auth_state" where
  "verify_token prov now st tok =
     (let c = (case tok of Bearer c \<Rightarrow> c | Token c \<Rightarrow> c)
      in case resolve_key prov now st c of
           (Inl e, st1) \<Rightarrow> (Inl (surfaced e), st1)
         | (Inr key, st1) \<Rightarrow>
             (case decode_user c key now of
                Inl e \<Rightarrow> (Inl (surfaced e), st1)
              | Inr user \<Rightarrow> (Inr user, st1)))"

section \<open>Task routes\<close>

text \<open>
  Source: \<^verbatim>\<open>Phase-2/backend/app/api/v1/tasks.py\<close>. Each handler receives the path's
  \<^verbatim>\<open>user_id\<close>, the verified \<^verbatim>\<open>current_user\<close> and the session, and answers with a
  response body or an \<^verbatim>\<open>HTTPException\<close>. The handlers share their names with the
  service's methods, so they carry the suffix \<open>_route\<close>.
\<close>

datatype response =
    TaskListResponse "task list" nat
  | TaskSingleResponse task "string option"
  | DeletedResponse

definition list_tasks_route ::
  "session \<Rightarrow> User \<Rightarrow> string \<Rightarrow> (http_exception + response) \<times> session" where
  "list_tasks_route s current_user uid =
     (if User_id current_user \<noteq> uid
      then (Inl (HTTPException 403 ''You can only access your own tasks''), s)
      else case list_tasks s uid of
             (Inl e, s1) \<Rightarrow> (Inl e, s1)
           | (Inr tasks, s1) \<Rightarrow> (Inr (TaskListResponse tasks (length tasks)), s1))"

definition get_task_route ::
  "session \<Rightarrow> User \<Rightarrow> string \<Rightarrow> nat \<Rightarrow> (http_exception + response) \<times> session" where
  "get_task_route s current_user uid tid =
     (if User_id current_user \<noteq> uid
      then (Inl (HTTPException 403 ''You can only access your own tasks''), s)
      else case get_task s uid tid of
             (Inl e, s1) \<Rightarrow> (Inl e, s1)
           | (Inr t, s1) \<Rightarrow> (Inr (TaskSingleResponse t None), s1))"

definition create_task_route ::
  "session \<Rightarrow> generated \<Rightarrow> User \<Rightarrow> string \<Rightarrow> TaskCreateRequest
     \<Rightarrow> (http_exception + response) \<times> session" where
  "create_task_route s g current_user uid task_request =
     (if User_id current_user \<noteq> uid
      then (Inl (HTTPException 403 ''You can only create tasks for yourself''), s)
      else case create_task s g uid task_request of
             (Inl e, s1) \<Rightarrow> (Inl e, s1)
           | (Inr t, s1) \<Rightarrow>
               (Inr (TaskSingleResponse t (Some ''Task created successfully'')), s1))"

text \<open>
  \<^verbatim>\<open>TaskResponse.model_validate\<close> of Python's \<^verbatim>\<open>None\<close> raises; the application's
  generic handler answers that with status 500.
\<close>

definition update_task_route ::
  "session \<Rightarrow> int \<Rightarrow> User \<Rightarrow> string \<Rightarrow> nat \<Rightarrow> TaskUpdateRequest
     \<Rightarrow> (http_exception + response) \<times> session" where
  "update_task_route s now current_user uid tid task_request =
     (if User_id current_user \<noteq> uid
      then (Inl (HTTPException 403 ''You can only update your own tasks''), s)
      else case update_task s now uid tid task_request of
             (Inl e, s1) \<Rightarrow> (Inl e, s1)
           | (Inr None, s1) \<Rightarrow> (Inl (HTTPException 500 ''An unexpected error occurred''), s1)
           | (Inr (Some t), s1) \<Rightarrow>
               (Inr (TaskSingleResponse t (Some ''Task updated successfully'')), s1))"

definition delete_task_route ::
  "session \<Rightarrow> int \<Rightarrow> User \<Rightarrow> string \<Rightarrow> nat \<Rightarrow> (http_exception + response) \<times> session" where
  "delete_task_route s now current_user uid tid =
     (if User_id current_user \<noteq> uid
      then (Inl (HTTPException 403 ''You can only delete your own tasks''), s)
      else case delete_task s now uid tid of
             (Inl e, s1) \<Rightarrow> (Inl e, s1)
           | (Inr ok, s1) \<Rightarrow> (Inr DeletedResponse, s1))"

section \<open>Scenario of the isolation tests\<close>

text \<open>
  Source: \<^verbatim>\<open>Phase-2/backend/tests/test_frontend_backend_integration.py\<close>,
  \<^verbatim>\<open>test_multiple_users_isolated\<close>: a run of create requests, each by some user, one
  after the other on the same table. The results are kept in order.
\<close>

fun create_all ::
  "session \<Rightarrow> (generated \<times> string \<times> TaskCreateRequest) list
     \<Rightarrow> (http_exception + task) list \<times> session" where
  "create_all s [] = ([], s)"
| "create_all s ((g, uid, task_request) # ops) =
     (case create_task s g uid task_request of
        (r, s1) \<Rightarrow> (case create_all s1 ops of (rs, s2) \<Rightarrow> (r # rs, s2)))"

section \<open>Properties\<close>

subsection \<open>C10: status values accepted by the update schema\<close>

text \<open>
  C10. The claim: the update operation's status validation accepts exactly
  \<^verbatim>\<open>pending\<close>, \<^verbatim>\<open>in_progress\<close>, \<^verbatim>\<open>completed\<close>, and rejects every other provided
  value. The validator \<^verbatim>\<open>TaskUpdateRequest.validate_status\<close> compares against the
  tuple \<^verbatim>\<open>("pending", "in-progress", "completed")\<close>, spelt with a hyphen, while the
  field's own description (\<^verbatim>\<open>"pending | in_progress | completed"\<close>) and the test
  \<^verbatim>\<open>test_update_task_all_valid_statuses\<close> spell the value with an underscore. So the
  value \<^verbatim>\<open>in_progress\<close> is rejected with a \<^verbatim>\<open>ValueError\<close>, and the value
  \<^verbatim>\<open>in-progress\<close>, which is none of the three, passes.
\<close>

theorem validate_status_in_progress_rejected:
  "validate_status (Some ''in_progress'')
     = Inl ''status must be one of: pending, in-progress, completed''
   \<and> validate_status (Some ''in-progress'') = Inr (Some ''in-progress'')"
  by (simp add: validate_status_def)

subsection \<open>Facts about the session and the table\<close>

lemma rows_logged: "rows (logged c s) = rows s"
  by (simp add: logged_def)

lemma find_by_id_eq:
  "find_by_id s uid tid =
     (find (\<lambda>t. task_id t = tid \<and> user_id t = uid) (rows s), logged (FindById uid tid) s)"
  by (simp add: find_by_id_def)

lemma commit_row_found:
  "find P xs = Some t \<Longrightarrow> \<exists>i<length xs. xs ! i = t \<and> P t \<and> commit_row P y xs = xs[i := y]"
proof (induction xs)
  case Nil
  then show ?case by simp
next
  case (Cons x xs)
  show ?case
  proof (cases "P x")
    case True
    with Cons.prems have "x = t" by simp
    with True show ?thesis by (intro exI[of _ 0]) simp
  next
    case False
    with Cons.prems have "find P xs = Some t" by simp
    from Cons.IH[OF this] obtain i where
      i: "i < length xs" "xs ! i = t" "P t" "commit_row P y xs = xs[i := y]" by blast
    with False show ?thesis by (intro exI[of _ "Suc i"]) simp
  qed
qed

lemma find_commit_row:
  "find P xs = Some t \<Longrightarrow> P y \<Longrightarrow> find P (commit_row P y xs) = Some y"
  by (induction xs) (auto split: if_splits)

lemma list_tasks_eq:
  "list_tasks s uid =
     (Inr (rev (sort_key created_at
        (filter (\<lambda>t. user_id t = uid \<and> status t \<noteq> ''deleted'') (rows s)))),
      logged (FindByUserId uid) s)"
  by (simp add: list_tasks_def find_by_user_id_def)

lemma sorted_desc_rev_sort_key:
  "sorted_wrt (\<lambda>a b. f b \<le> f a) (rev (sort_key f xs))"
proof -
  have "sorted (map f (sort_key f xs))" by simp
  then have "sorted_wrt (\<lambda>a b. f a \<le> f b) (sort_key f xs)"
    by (simp add: sorted_map)
  then show ?thesis
    by (simp add: sorted_wrt_rev)
qed

lemma create_task_rows:
  assumes "create_task s g uid req = (r, s1)"
  shows "case r of
           Inl e \<Rightarrow> rows s1 = rows s
         | Inr t \<Rightarrow> rows s1 = rows s @ [t] \<and> user_id t = uid \<and> status t = ''pending''
                     \<and> task_id t = uuid4 g"
  using assms
  by (auto simp: create_task_def create_def Let_def rows_logged split: if_splits)

lemma create_all_rows:
  "create_all s ops = (rs, s') \<Longrightarrow>
     rows s' = rows s @ [t. Inr t \<leftarrow> rs]
     \<and> (\<forall>t \<in> set [t. Inr t \<leftarrow> rs]. status t = ''pending'')"
proof (induction ops arbitrary: s rs s')
  case Nil
  then show ?case by simp
next
  case (Cons op ops)
  obtain g u q where op: "op = (g, u, q)" by (cases op) auto
  obtain r s1 where c: "create_task s g u q = (r, s1)" by (cases "create_task s g u q") auto
  obtain rs1 s2 where a: "create_all s1 ops = (rs1, s2)" by (cases "create_all s1 ops") auto
  from Cons.prems op c a have eq: "rs = r # rs1" "s' = s2" by simp_all
  note ih = Cons.IH[OF a]
  from create_task_rows[OF c] ih show ?case
    unfolding eq by (cases r) auto
qed

subsection \<open>C1: the ownership check comes before any repository call\<close>

text \<open>
  C1. For each of the five task routes (list, get, create, update, delete): when the
  authenticated user's id differs from the \<^verbatim>\<open>user_id\<close> of the path, the route
  answers 403 and hands back the very session it was given. The session holds the
  table's rows and the log of repository calls, so no repository method was entered
  and no row changed.
\<close>

theorem ownership_mismatch_forbidden:
  assumes "User_id current_user \<noteq> uid"
  shows "list_tasks_route s current_user uid
           = (Inl (HTTPException 403 ''You can only access your own tasks''), s)
       \<and> get_task_route s current_user uid tid
           = (Inl (HTTPException 403 ''You can only access your own tasks''), s)
       \<and> create_task_route s g current_user uid create_request
           = (Inl (HTTPException 403 ''You can only create tasks for yourself''), s)
       \<and> update_task_route s now current_user uid tid update_request
           = (Inl (HTTPException 403 ''You can only update your own tasks''), s)
       \<and> delete_task_route s now current_user uid tid
           = (Inl (HTTPException 403 ''You can only delete your own tasks''), s)"
  using assms
  by (simp add: list_tasks_route_def get_task_route_def create_task_route_def
        update_task_route_def delete_task_route_def)

theorem ownership_mismatch_forbidden_witness:
  "User_id \<lparr>User_id = ''alice'', User_email = ''a@example.com'', User_name = None\<rparr> \<noteq> ''bob''
   \<and> delete_task_route
       \<lparr>rows = [\<lparr>task_id = 1, user_id = ''bob'', title = ''Pay rent'', description = None,
                 status = ''pending'', priority = Some ''medium'', created_at = 5,
                 updated_at = 5\<rparr>],
        calls = []\<rparr>
       9 \<lparr>User_id = ''alice'', User_email = ''a@example.com'', User_name = None\<rparr> ''bob'' 1
     = (Inl (HTTPException 403 ''You can only delete your own tasks''),
        \<lparr>rows = [\<lparr>task_id = 1, user_id = ''bob'', title = ''Pay rent'', description = None,
                  status = ''pending'', priority = Some ''medium'', created_at = 5,
                  updated_at = 5\<rparr>],
         calls = []\<rparr>)"
  using ownership_mismatch_forbidden
    [where current_user = "\<lparr>User_id = ''alice'', User_email = ''a@example.com'', User_name = None\<rparr>"
       and uid = "''bob''" and tid = 1 and now = 9
       and s = "\<lparr>rows = [\<lparr>task_id = 1, user_id = ''bob'', title = ''Pay rent'',
                            description = None, status = ''pending'',
                            priority = Some ''medium'', created_at = 5, updated_at = 5\<rparr>],
                  calls = []\<rparr>"]
  by simp

subsection \<open>C5: single get is scoped by owner and does not look at the status\<close>

text \<open>
  C5. \<^verbatim>\<open>get_task(user_id, task_id)\<close> returns a record exactly when the table holds a
  row with that id and that owner, whatever its status; the record returned is such a
  row. When there is none, because the id belongs to another owner or to nobody, the
  answer is the same 404 \<^verbatim>\<open>"Task not found"\<close>. The rows are left as they were.
\<close>

theorem get_task_scoped:
  "(\<forall>t. fst (get_task s uid tid) = Inr t \<longrightarrow>
        t \<in> set (rows s) \<and> task_id t = tid \<and> user_id t = uid)
   \<and> ((\<exists>t \<in> set (rows s). task_id t = tid \<and> user_id t = uid) \<longrightarrow>
        (\<exists>t. fst (get_task s uid tid) = Inr t))
   \<and> (\<not> (\<exists>t \<in> set (rows s). task_id t = tid \<and> user_id t = uid) \<longrightarrow>
        fst (get_task s uid tid) = Inl (HTTPException 404 ''Task not found''))
   \<and> rows (snd (get_task s uid tid)) = rows s"
proof -
  let ?P = "\<lambda>t. task_id t = tid \<and> user_id t = uid"
  show ?thesis
  proof (cases "find ?P (rows s)")
    case None
    then have "\<not> (\<exists>t \<in> set (rows s). ?P t)" by (simp add: find_None_iff)
    with None show ?thesis
      by (simp add: get_task_def find_by_id_eq rows_logged)
  next
    case (Some t)
    then have "t \<in> set (rows s)" "?P t"
      by (auto simp: find_Some_iff)
    with Some show ?thesis
      by (auto simp: get_task_def find_by_id_eq rows_logged)
  qed
qed

theorem get_task_scoped_witness:
  "fst (get_task
          \<lparr>rows = [\<lparr>task_id = 1, user_id = ''alice'', title = ''Old'', description = None,
                    status = ''deleted'', priority = Some ''low'', created_at = 3,
                    updated_at = 4\<rparr>,
                   \<lparr>task_id = 2, user_id = ''bob'', title = ''Other'', description = None,
                    status = ''pending'', priority = Some ''high'', created_at = 6,
                    updated_at = 6\<rparr>],
           calls = []\<rparr> ''alice'' 1)
     = Inr \<lparr>task_id = 1, user_id = ''alice'', title = ''Old'', description = None,
            status = ''deleted'', priority = Some ''low'', created_at = 3, updated_at = 4\<rparr>
   \<and> fst (get_task
          \<lparr>rows = [\<lparr>task_id = 1, user_id = ''alice'', title = ''Old'', description = None,
                    status = ''deleted'', priority = Some ''low'', created_at = 3,
                    updated_at = 4\<rparr>,
                   \<lparr>task_id = 2, user_id = ''bob'', title = ''Other'', description = None,
                    status = ''pending'', priority = Some ''high'', created_at = 6,
                    updated_at = 6\<rparr>],
           calls = []\<rparr> ''alice'' 2)
     = Inl (HTTPException 404 ''Task not found'')
   \<and> fst (get_task
          \<lparr>rows = [\<lparr>task_id = 1, user_id = ''alice'', title = ''Old'', description = None,
                    status = ''deleted'', priority = Some ''low'', created_at = 3,
                    updated_at = 4\<rparr>,
                   \<lparr>task_id = 2, user_id = ''bob'', title = ''Other'', description = None,
                    status = ''pending'', priority = Some ''high'', created_at = 6,
                    updated_at = 6\<rparr>],
           calls = []\<rparr> ''alice'' 3)
     = Inl (HTTPException 404 ''Task not found'')"
  using get_task_scoped
    [where uid = "''alice''" and tid = 2
       and s = "\<lparr>rows = [\<lparr>task_id = 1, user_id = ''alice'', title = ''Old'',
                            description = None, status = ''deleted'', priority = Some ''low'',
                            created_at = 3, updated_at = 4\<rparr>,
                           \<lparr>task_id = 2, user_id = ''bob'', title = ''Other'',
                            description = None, status = ''pending'', priority = Some ''high'',
                            created_at = 6, updated_at = 6\<rparr>],
                  calls = []\<rparr>"]
  by (simp add: get_task_def find_by_id_def)

subsection \<open>C6: the listing of an owner\<close>

text \<open>
  C6. For every table, \<^verbatim>\<open>list_tasks(user_id)\<close> succeeds with exactly the rows of that
  owner whose status is not \<^verbatim>\<open>deleted\<close> (as a multiset: each such row once, and no
  other row), ordered by \<^verbatim>\<open>created_at\<close> descending, and leaves the rows as they
  were. Isolation: after any run of create requests on an empty table, the listing
  of owner \<open>a\<close> has as many records as that run created for \<open>a\<close>, all of them owned
  by \<open>a\<close>.
\<close>

theorem list_tasks_owner_scoped:
  "(\<exists>ts. fst (list_tasks s uid) = Inr ts
      \<and> mset ts = filter_mset (\<lambda>t. user_id t = uid \<and> status t \<noteq> ''deleted'') (mset (rows s))
      \<and> sorted_wrt (\<lambda>x y. created_at y \<le> created_at x) ts
      \<and> (\<forall>t \<in> set ts. user_id t = uid \<and> status t \<noteq> ''deleted''))
   \<and> rows (snd (list_tasks s uid)) = rows s
   \<and> (rows s0 = [] \<and> create_all s0 ops = (rs, s') \<longrightarrow>
        (\<exists>ts. fst (list_tasks s' a) = Inr ts
           \<and> length ts = length (filter (\<lambda>t. user_id t = a) [t. Inr t \<leftarrow> rs])
           \<and> (\<forall>t \<in> set ts. user_id t = a)))"
proof -
  have general: "\<exists>ts. fst (list_tasks s uid) = Inr ts
      \<and> mset ts = filter_mset (\<lambda>t. user_id t = uid \<and> status t \<noteq> ''deleted'') (mset (rows s))
      \<and> sorted_wrt (\<lambda>x y. created_at y \<le> created_at x) ts
      \<and> (\<forall>t \<in> set ts. user_id t = uid \<and> status t \<noteq> ''deleted'')"
    by (simp add: list_tasks_eq sorted_desc_rev_sort_key)
  have frame: "rows (snd (list_tasks s uid)) = rows s"
    by (simp add: list_tasks_eq rows_logged)
  have isolation: "\<exists>ts. fst (list_tasks s' a) = Inr ts
           \<and> length ts = length (filter (\<lambda>t. user_id t = a) [t. Inr t \<leftarrow> rs])
           \<and> (\<forall>t \<in> set ts. user_id t = a)"
    if e: "rows s0 = []" and c: "create_all s0 ops = (rs, s')"
  proof -
    from create_all_rows[OF c] e
    have r: "rows s' = [t. Inr t \<leftarrow> rs]"
      and p: "\<forall>t \<in> set [t. Inr t \<leftarrow> rs]. status t = ''pending''"
      by simp_all
    have "filter (\<lambda>t. user_id t = a \<and> status t \<noteq> ''deleted'') [t. Inr t \<leftarrow> rs]
            = filter (\<lambda>t. user_id t = a) [t. Inr t \<leftarrow> rs]"
      using p by (intro filter_cong) auto
    with r show ?thesis by (simp add: list_tasks_eq)
  qed
  from general frame isolation show ?thesis by blast
qed

theorem list_tasks_owner_scoped_witness:
  "fst (list_tasks
          \<lparr>rows = [\<lparr>task_id = 1, user_id = ''alice'', title = ''First'', description = None,
                    status = ''pending'', priority = Some ''low'', created_at = 3,
                    updated_at = 3\<rparr>,
                   \<lparr>task_id = 2, user_id = ''bob'', title = ''Other'', description = None,
                    status = ''pending'', priority = Some ''high'', created_at = 6,
                    updated_at = 6\<rparr>,
                   \<lparr>task_id = 3, user_id = ''alice'', title = ''Gone'', description = None,
                    status = ''deleted'', priority = Some ''low'', created_at = 7,
                    updated_at = 8\<rparr>,
                   \<lparr>task_id = 4, user_id = ''alice'', title = ''Second'', description = None,
                    status = ''completed'', priority = Some ''low'', created_at = 9,
                    updated_at = 9\<rparr>],
           calls = []\<rparr> ''alice'')
     = Inr [\<lparr>task_id = 4, user_id = ''alice'', title = ''Second'', description = None,
             status = ''completed'', priority = Some ''low'', created_at = 9, updated_at = 9\<rparr>,
            \<lparr>task_id = 1, user_id = ''alice'', title = ''First'', description = None,
             status = ''pending'', priority = Some ''low'', created_at = 3, updated_at = 3\<rparr>]
   \<and> rows \<lparr>rows = [], calls = []\<rparr> = []
   \<and> (\<exists>ts. fst (list_tasks
                  (snd (create_all \<lparr>rows = [], calls = []\<rparr>
                     [(\<lparr>uuid4 = 1, utcnow_created = 10, utcnow_updated = 10\<rparr>, ''alice'',
                       \<lparr>new_title = ''A1'', new_description = None, new_priority = None\<rparr>),
                      (\<lparr>uuid4 = 2, utcnow_created = 11, utcnow_updated = 11\<rparr>, ''bob'',
                       \<lparr>new_title = ''B1'', new_description = None, new_priority = Some ''high''\<rparr>),
                      (\<lparr>uuid4 = 3, utcnow_created = 12, utcnow_updated = 12\<rparr>, ''alice'',
                       \<lparr>new_title = ''A2'', new_description = None, new_priority = None\<rparr>)]))
                  ''alice'') = Inr ts
          \<and> length ts = 2)"
  using list_tasks_owner_scoped
    [where uid = "''alice''" and a = "''alice''"
       and s = "\<lparr>rows = [\<lparr>task_id = 1, user_id = ''alice'', title = ''First'', description = None,
                    status = ''pending'', priority = Some ''low'', created_at = 3,
                    updated_at = 3\<rparr>,
                   \<lparr>task_id = 2, user_id = ''bob'', title = ''Other'', description = None,
                    status = ''pending'', priority = Some ''high'', created_at = 6,
                    updated_at = 6\<rparr>,
                   \<lparr>task_id = 3, user_id = ''alice'', title = ''Gone'', description = None,
                    status = ''deleted'', priority = Some ''low'', created_at = 7,
                    updated_at = 8\<rparr>,
                   \<lparr>task_id = 4, user_id = ''alice'', title = ''Second'', description = None,
                    status = ''completed'', priority = Some ''low'', created_at = 9,
                    updated_at = 9\<rparr>],
           calls = []\<rparr>"
       and ?s0.0 = "\<lparr>rows = [], calls = []\<rparr>"
       and ops = "[(\<lparr>uuid4 = 1, utcnow_created = 10, utcnow_updated = 10\<rparr>, ''alice'',
                       \<lparr>new_title = ''A1'', new_description = None, new_priority = None\<rparr>),
                      (\<lparr>uuid4 = 2, utcnow_created = 11, utcnow_updated = 11\<rparr>, ''bob'',
                       \<lparr>new_title = ''B1'', new_description = None, new_priority = Some ''high''\<rparr>),
                      (\<lparr>uuid4 = 3, utcnow_created = 12, utcnow_updated = 12\<rparr>, ''alice'',
                       \<lparr>new_title = ''A2'', new_description = None, new_priority = None\<rparr>)]"
       and rs = "fst (create_all \<lparr>rows = [], calls = []\<rparr>
                     [(\<lparr>uuid4 = 1, utcnow_created = 10, utcnow_updated = 10\<rparr>, ''alice'',
                       \<lparr>new_title = ''A1'', new_description = None, new_priority = None\<rparr>),
                      (\<lparr>uuid4 = 2, utcnow_created = 11, utcnow_updated = 11\<rparr>, ''bob'',
                       \<lparr>new_title = ''B1'', new_description = None, new_priority = Some ''high''\<rparr>),
                      (\<lparr>uuid4 = 3, utcnow_created = 12, utcnow_updated = 12\<rparr>, ''alice'',
                       \<lparr>new_title = ''A2'', new_description = None, new_priority = None\<rparr>)])"
       and s' = "snd (create_all \<lparr>rows = [], calls = []\<rparr>
                     [(\<lparr>uuid4 = 1, utcnow_created = 10, utcnow_updated = 10\<rparr>, ''alice'',
                       \<lparr>new_title = ''A1'', new_description = None, new_priority = None\<rparr>),
                      (\<lparr>uuid4 = 2, utcnow_created = 11, utcnow_updated = 11\<rparr>, ''bob'',
                       \<lparr>new_title = ''B1'', new_description = None, new_priority = Some ''high''\<rparr>),
                      (\<lparr>uuid4 = 3, utcnow_created = 12, utcnow_updated = 12\<rparr>, ''alice'',
                       \<lparr>new_title = ''A2'', new_description = None, new_priority = None\<rparr>)])"]
  by (simp add: list_tasks_def find_by_user_id_def create_task_def create_def strip_def
        isspace_def logged_def Let_def)

subsection \<open>C7: a deleted record cannot be updated\<close>

text \<open>
  C7. When the record that \<^verbatim>\<open>find_by_id\<close> returns for the owner has status
  \<^verbatim>\<open>deleted\<close>, \<^verbatim>\<open>update_task\<close> answers 400 \<^verbatim>\<open>"Cannot update deleted task"\<close>
  whatever the partial update holds. The rows are exactly as before (no field of any
  row is written, \<^verbatim>\<open>updated_at\<close> included), and the only repository call made is
  the look-up.
\<close>

theorem update_deleted_rejected:
  assumes "fst (find_by_id s uid tid) = Some t" and "status t = ''deleted''"
  shows "fst (update_task s now uid tid updates)
           = Inl (HTTPException 400 ''Cannot update deleted task'')
       \<and> rows (snd (update_task s now uid tid updates)) = rows s
       \<and> calls (snd (update_task s now uid tid updates)) = calls s @ [FindById uid tid]"
  using assms by (simp add: update_task_def find_by_id_eq logged_def)

theorem update_deleted_rejected_witness:
  "fst (find_by_id
          \<lparr>rows = [\<lparr>task_id = 1, user_id = ''alice'', title = ''Old'', description = None,
                    status = ''deleted'', priority = Some ''low'', created_at = 3,
                    updated_at = 4\<rparr>],
           calls = []\<rparr> ''alice'' 1)
     = Some \<lparr>task_id = 1, user_id = ''alice'', title = ''Old'', description = None,
             status = ''deleted'', priority = Some ''low'', created_at = 3, updated_at = 4\<rparr>
   \<and> update_task
        \<lparr>rows = [\<lparr>task_id = 1, user_id = ''alice'', title = ''Old'', description = None,
                  status = ''deleted'', priority = Some ''low'', created_at = 3,
                  updated_at = 4\<rparr>],
         calls = []\<rparr> 20 ''alice'' 1
        \<lparr>upd_title = Some ''Try to update'', upd_description = None, upd_status = None,
         upd_priority = None\<rparr>
     = (Inl (HTTPException 400 ''Cannot update deleted task''),
        \<lparr>rows = [\<lparr>task_id = 1, user_id = ''alice'', title = ''Old'', description = None,
                  status = ''deleted'', priority = Some ''low'', created_at = 3,
                  updated_at = 4\<rparr>],
         calls = [FindById ''alice'' 1]\<rparr>)"
  using update_deleted_rejected
    [where uid = "''alice''" and tid = 1 and now = 20
       and updates = "\<lparr>upd_title = Some ''Try to update'', upd_description = None,
                        upd_status = None, upd_priority = None\<rparr>"
       and t = "\<lparr>task_id = 1, user_id = ''alice'', title = ''Old'', description = None,
                  status = ''deleted'', priority = Some ''low'', created_at = 3,
                  updated_at = 4\<rparr>"
       and s = "\<lparr>rows = [\<lparr>task_id = 1, user_id = ''alice'', title = ''Old'',
                            description = None, status = ''deleted'', priority = Some ''low'',
                            created_at = 3, updated_at = 4\<rparr>],
                  calls = []\<rparr>"]
  by (simp add: update_task_def find_by_id_def logged_def)

subsection \<open>C8: soft delete is idempotent\<close>

lemma soft_delete_found:
  assumes "find (\<lambda>r. task_id r = tid \<and> user_id r = uid) (rows s) = Some t"
  shows "soft_delete s now uid tid
           = (True, (logged (FindById uid tid) (logged (SoftDelete uid tid) s))
                \<lparr>rows := commit_row (\<lambda>r. task_id r = tid \<and> user_id r = uid)
                           (t\<lparr>status := ''deleted'', updated_at := now\<rparr>) (rows s)\<rparr>)"
  using assms by (simp add: soft_delete_def find_by_id_eq rows_logged Let_def)

lemma delete_task_absent:
  assumes "fst (find_by_id s uid tid) = None"
  shows "fst (delete_task s now uid tid) = Inl (HTTPException 404 ''Task not found'')"
    and "rows (snd (delete_task s now uid tid)) = rows s"
  using assms by (simp_all add: delete_task_def find_by_id_eq rows_logged)

lemma delete_task_already:
  assumes "fst (find_by_id s uid tid) = Some t" and "status t = ''deleted''"
  shows "fst (delete_task s now uid tid) = Inr True"
    and "rows (snd (delete_task s now uid tid)) = rows s"
  using assms by (simp_all add: delete_task_def find_by_id_eq rows_logged)

lemma delete_task_live:
  assumes "fst (find_by_id s uid tid) = Some t" and "status t \<noteq> ''deleted''"
  shows "fst (delete_task s now uid tid) = Inr True"
    and "rows (snd (delete_task s now uid tid))
           = commit_row (\<lambda>r. task_id r = tid \<and> user_id r = uid)
               (t\<lparr>status := ''deleted'', updated_at := now\<rparr>) (rows s)"
proof -
  from assms(1) have f: "find (\<lambda>r. task_id r = tid \<and> user_id r = uid) (rows s) = Some t"
    by (simp add: find_by_id_eq)
  then have f': "find (\<lambda>r. task_id r = tid \<and> user_id r = uid)
                   (rows (logged (FindById uid tid) s)) = Some t"
    by (simp add: rows_logged)
  have d: "delete_task s now uid tid
             = (case soft_delete (logged (FindById uid tid) s) now uid tid of
                  (success, s2) \<Rightarrow> (Inr success, s2))"
    using f assms(2) by (simp add: delete_task_def find_by_id_eq)
  show "fst (delete_task s now uid tid) = Inr True"
    unfolding d soft_delete_found[OF f'] by simp
  show "rows (snd (delete_task s now uid tid))
           = commit_row (\<lambda>r. task_id r = tid \<and> user_id r = uid)
               (t\<lparr>status := ''deleted'', updated_at := now\<rparr>) (rows s)"
    unfolding d soft_delete_found[OF f'] by (simp add: rows_logged)
qed

lemma find_by_id_row:
  assumes "fst (find_by_id s uid tid) = Some t"
  shows "task_id t = tid \<and> user_id t = uid
       \<and> (\<exists>i<length (rows s). rows s ! i = t
            \<and> commit_row (\<lambda>r. task_id r = tid \<and> user_id r = uid) y (rows s)
                = (rows s)[i := y])"
proof -
  from assms have ff: "find (\<lambda>r. task_id r = tid \<and> user_id r = uid) (rows s) = Some t"
    by (simp add: find_by_id_eq)
  from commit_row_found[OF ff, where y = y] show ?thesis
    by (elim exE conjE) (intro conjI exI, assumption+)
qed

lemma delete_task_live_row:
  assumes f: "fst (find_by_id s uid tid) = Some t" and l: "status t \<noteq> ''deleted''"
  shows "\<exists>i<length (rows s). rows s ! i = t
            \<and> rows (snd (delete_task s now uid tid))
                = (rows s)[i := t\<lparr>status := ''deleted'', updated_at := now\<rparr>]"
proof -
  let ?t' = "t\<lparr>status := ''deleted'', updated_at := now\<rparr>"
  note r = find_by_id_row[OF f, where y = ?t']
  note d = delete_task_live(2)[OF f l, where now = now]
  from r show ?thesis
    unfolding d by (elim exE conjE) (intro conjI exI, assumption+)
qed

lemma delete_task_live_find:
  assumes f: "fst (find_by_id s uid tid) = Some t" and l: "status t \<noteq> ''deleted''"
  shows "fst (find_by_id (snd (delete_task s now uid tid)) uid tid)
           = Some (t\<lparr>status := ''deleted'', updated_at := now\<rparr>)"
proof -
  let ?t' = "t\<lparr>status := ''deleted'', updated_at := now\<rparr>"
  from f have ff: "find (\<lambda>r. task_id r = tid \<and> user_id r = uid) (rows s) = Some t"
    by (simp add: find_by_id_eq)
  note r = find_by_id_row[OF f, where y = ?t']
  from r[THEN conjunct1] r[THEN conjunct2, THEN conjunct1] have Pt': "task_id ?t' = tid \<and> user_id ?t' = uid" by simp
  have "find (\<lambda>r. task_id r = tid \<and> user_id r = uid)
          (commit_row (\<lambda>r. task_id r = tid \<and> user_id r = uid) ?t' (rows s)) = Some ?t'"
    using ff Pt' by (rule find_commit_row)
  then show ?thesis
    by (simp only: find_by_id_eq fst_conv delete_task_live(2)[OF f l, where now = now])
qed

lemma delete_task_twice:
  assumes f: "fst (find_by_id s uid tid) = Some t"
  shows "fst (delete_task s now uid tid) = Inr True"
    and "fst (delete_task (snd (delete_task s now uid tid)) now' uid tid) = Inr True"
    and "rows (snd (delete_task (snd (delete_task s now uid tid)) now' uid tid))
           = rows (snd (delete_task s now uid tid))"
    and "\<exists>t'. fst (find_by_id (snd (delete_task s now uid tid)) uid tid) = Some t'
           \<and> status t' = ''deleted''"
proof -
  let ?s1 = "snd (delete_task s now uid tid)"
  let ?d = "t\<lparr>status := ''deleted'', updated_at := now\<rparr>"
  have "\<exists>t'. fst (find_by_id ?s1 uid tid) = Some t' \<and> status t' = ''deleted''
        \<and> fst (delete_task s now uid tid) = Inr True"
  proof (cases "status t = ''deleted''")
    case True
    have "rows ?s1 = rows s" using f True by (rule delete_task_already(2))
    with f have "fst (find_by_id ?s1 uid tid) = Some t" by (simp add: find_by_id_eq)
    moreover have "fst (delete_task s now uid tid) = Inr True"
      using f True by (rule delete_task_already(1))
    ultimately show ?thesis using True by (intro exI[of _ t] conjI)
  next
    case False
    have "fst (find_by_id ?s1 uid tid) = Some ?d"
      using f False by (rule delete_task_live_find)
    moreover have "status ?d = ''deleted''" by simp
    moreover have "fst (delete_task s now uid tid) = Inr True"
      using f False by (rule delete_task_live(1))
    ultimately show ?thesis by (intro exI[of _ ?d] conjI)
  qed
  then obtain t' where t': "fst (find_by_id ?s1 uid tid) = Some t'" "status t' = ''deleted''"
    and first: "fst (delete_task s now uid tid) = Inr True"
    by (elim exE conjE)
  show "fst (delete_task s now uid tid) = Inr True" by (rule first)
  show "fst (delete_task ?s1 now' uid tid) = Inr True"
    using t' by (rule delete_task_already(1))
  show "rows (snd (delete_task ?s1 now' uid tid)) = rows ?s1"
    using t' by (rule delete_task_already(2))
  show "\<exists>t'. fst (find_by_id ?s1 uid tid) = Some t' \<and> status t' = ''deleted''"
    using t' by (intro exI[of _ t'] conjI)
qed

text \<open>
  C8. \<^verbatim>\<open>delete_task(user_id, task_id)\<close>: when no row has that id and that owner,
  the answer is 404 and the rows are unchanged; when the row is already
  \<^verbatim>\<open>deleted\<close>, the answer is success and the rows are unchanged; otherwise the
  answer is success, exactly that row is replaced by itself with status
  \<^verbatim>\<open>deleted\<close> and \<^verbatim>\<open>updated_at\<close> set to the current time, and a look-up finds it
  so. Deleting a record the owner has, twice in a row, succeeds both times; the
  second call changes no row and the record is \<^verbatim>\<open>deleted\<close> after the first.
\<close>

theorem delete_task_idempotent:
  "(fst (find_by_id s uid tid) = None \<longrightarrow>
      fst (delete_task s now uid tid) = Inl (HTTPException 404 ''Task not found'')
      \<and> rows (snd (delete_task s now uid tid)) = rows s)
   \<and> (\<forall>t. fst (find_by_id s uid tid) = Some t \<and> status t = ''deleted'' \<longrightarrow>
      fst (delete_task s now uid tid) = Inr True
      \<and> rows (snd (delete_task s now uid tid)) = rows s)
   \<and> (\<forall>t. fst (find_by_id s uid tid) = Some t \<and> status t \<noteq> ''deleted'' \<longrightarrow>
      fst (delete_task s now uid tid) = Inr True
      \<and> (\<exists>i<length (rows s). rows s ! i = t
            \<and> rows (snd (delete_task s now uid tid))
                = (rows s)[i := t\<lparr>status := ''deleted'', updated_at := now\<rparr>])
      \<and> fst (find_by_id (snd (delete_task s now uid tid)) uid tid)
            = Some (t\<lparr>status := ''deleted'', updated_at := now\<rparr>))
   \<and> (\<forall>t. fst (find_by_id s uid tid) = Some t \<longrightarrow>
      fst (delete_task s now uid tid) = Inr True
      \<and> fst (delete_task (snd (delete_task s now uid tid)) now' uid tid) = Inr True
      \<and> rows (snd (delete_task (snd (delete_task s now uid tid)) now' uid tid))
            = rows (snd (delete_task s now uid tid))
      \<and> (\<exists>t'. fst (find_by_id (snd (delete_task s now uid tid)) uid tid) = Some t'
            \<and> status t' = ''deleted''))"
proof -
  have absent: "fst (find_by_id s uid tid) = None \<longrightarrow>
      fst (delete_task s now uid tid) = Inl (HTTPException 404 ''Task not found'')
      \<and> rows (snd (delete_task s now uid tid)) = rows s"
  proof (intro impI conjI)
    assume n: "fst (find_by_id s uid tid) = None"
    from n show "fst (delete_task s now uid tid) = Inl (HTTPException 404 ''Task not found'')"
      by (rule delete_task_absent(1))
    from n show "rows (snd (delete_task s now uid tid)) = rows s"
      by (rule delete_task_absent(2))
  qed
  have already: "\<forall>t. fst (find_by_id s uid tid) = Some t \<and> status t = ''deleted'' \<longrightarrow>
      fst (delete_task s now uid tid) = Inr True
      \<and> rows (snd (delete_task s now uid tid)) = rows s"
  proof (intro allI impI conjI)
    fix t assume h: "fst (find_by_id s uid tid) = Some t \<and> status t = ''deleted''"
    from h[THEN conjunct1] h[THEN conjunct2]
    show "fst (delete_task s now uid tid) = Inr True" by (rule delete_task_already(1))
    from h[THEN conjunct1] h[THEN conjunct2]
    show "rows (snd (delete_task s now uid tid)) = rows s" by (rule delete_task_already(2))
  qed
  have live: "\<forall>t. fst (find_by_id s uid tid) = Some t \<and> status t \<noteq> ''deleted'' \<longrightarrow>
      fst (delete_task s now uid tid) = Inr True
      \<and> (\<exists>i<length (rows s). rows s ! i = t
            \<and> rows (snd (delete_task s now uid tid))
                = (rows s)[i := t\<lparr>status := ''deleted'', updated_at := now\<rparr>])
      \<and> fst (find_by_id (snd (delete_task s now uid tid)) uid tid)
            = Some (t\<lparr>status := ''deleted'', updated_at := now\<rparr>)"
  proof (intro allI impI)
    fix t assume h: "fst (find_by_id s uid tid) = Some t \<and> status t \<noteq> ''deleted''"
    note f = h[THEN conjunct1] and l = h[THEN conjunct2]
    from delete_task_live(1)[OF f l, where now = now]
      delete_task_live_row[OF f l, where now = now]
      delete_task_live_find[OF f l, where now = now]
    show "fst (delete_task s now uid tid) = Inr True
      \<and> (\<exists>i<length (rows s). rows s ! i = t
            \<and> rows (snd (delete_task s now uid tid))
                = (rows s)[i := t\<lparr>status := ''deleted'', updated_at := now\<rparr>])
      \<and> fst (find_by_id (snd (delete_task s now uid tid)) uid tid)
            = Some (t\<lparr>status := ''deleted'', updated_at := now\<rparr>)"
      by (intro conjI)
  qed
  have twice: "\<forall>t. fst (find_by_id s uid tid) = Some t \<longrightarrow>
      fst (delete_task s now uid tid) = Inr True
      \<and> fst (delete_task (snd (delete_task s now uid tid)) now' uid tid) = Inr True
      \<and> rows (snd (delete_task (snd (delete_task s now uid tid)) now' uid tid))
            = rows (snd (delete_task s now uid tid))
      \<and> (\<exists>t'. fst (find_by_id (snd (delete_task s now uid tid)) uid tid) = Some t'
            \<and> status t' = ''deleted'')"
  proof (intro allI impI)
    fix t assume f: "fst (find_by_id s uid tid) = Some t"
    from delete_task_twice(1)[OF f, where now = now]
      delete_task_twice(2)[OF f, where now = now and now' = now']
      delete_task_twice(3)[OF f, where now = now and now' = now']
      delete_task_twice(4)[OF f, where now = now]
    show "fst (delete_task s now uid tid) = Inr True
      \<and> fst (delete_task (snd (delete_task s now uid tid)) now' uid tid) = Inr True
      \<and> rows (snd (delete_task (snd (delete_task s now uid tid)) now' uid tid))
            = rows (snd (delete_task s now uid tid))
      \<and> (\<exists>t'. fst (find_by_id (snd (delete_task s now uid tid)) uid tid) = Some t'
            \<and> status t' = ''deleted'')"
      by (intro conjI)
  qed
  from absent already live twice show ?thesis by (intro conjI)
qed

theorem delete_task_idempotent_witness:
  "fst (find_by_id
          \<lparr>rows = [\<lparr>task_id = 1, user_id = ''alice'', title = ''Pay rent'', description = None,
                    status = ''pending'', priority = Some ''medium'', created_at = 5,
                    updated_at = 5\<rparr>],
           calls = []\<rparr> ''alice'' 1)
     = Some \<lparr>task_id = 1, user_id = ''alice'', title = ''Pay rent'', description = None,
             status = ''pending'', priority = Some ''medium'', created_at = 5, updated_at = 5\<rparr>
   \<and> delete_task
        \<lparr>rows = [\<lparr>task_id = 1, user_id = ''alice'', title = ''Pay rent'', description = None,
                  status = ''pending'', priority = Some ''medium'', created_at = 5,
                  updated_at = 5\<rparr>],
         calls = []\<rparr> 20 ''alice'' 1
     = (Inr True,
        \<lparr>rows = [\<lparr>task_id = 1, user_id = ''alice'', title = ''Pay rent'', description = None,
                  status = ''deleted'', priority = Some ''medium'', created_at = 5,
                  updated_at = 20\<rparr>],
         calls = [FindById ''alice'' 1, SoftDelete ''alice'' 1, FindById ''alice'' 1]\<rparr>)
   \<and> delete_task
        \<lparr>rows = [\<lparr>task_id = 1, user_id = ''alice'', title = ''Pay rent'', description = None,
                  status = ''deleted'', priority = Some ''medium'', created_at = 5,
                  updated_at = 20\<rparr>],
         calls = [FindById ''alice'' 1, SoftDelete ''alice'' 1, FindById ''alice'' 1]\<rparr>
        30 ''alice'' 1
     = (Inr True,
        \<lparr>rows = [\<lparr>task_id = 1, user_id = ''alice'', title = ''Pay rent'', description = None,
                  status = ''deleted'', priority = Some ''medium'', created_at = 5,
                  updated_at = 20\<rparr>],
         calls = [FindById ''alice'' 1, SoftDelete ''alice'' 1, FindById ''alice'' 1,
                  FindById ''alice'' 1]\<rparr>)
   \<and> fst (delete_task
        \<lparr>rows = [\<lparr>task_id = 1, user_id = ''alice'', title = ''Pay rent'', description = None,
                  status = ''pending'', priority = Some ''medium'', created_at = 5,
                  updated_at = 5\<rparr>],
         calls = []\<rparr> 20 ''alice'' 9)
     = Inl (HTTPException 404 ''Task not found'')"
  using delete_task_idempotent
    [where uid = "''alice''" and tid = 1 and now = 20 and now' = 30
       and s = "\<lparr>rows = [\<lparr>task_id = 1, user_id = ''alice'', title = ''Pay rent'',
                            description = None, status = ''pending'',
                            priority = Some ''medium'', created_at = 5, updated_at = 5\<rparr>],
                  calls = []\<rparr>"]
  by (simp add: delete_task_def soft_delete_def find_by_id_def logged_def)

subsection \<open>C9: what a mutation writes\<close>

lemma map_commit_row:
  "find P xs = Some t \<Longrightarrow> f y = f t \<Longrightarrow> map f (commit_row P y xs) = map f xs"
  by (induction xs) (auto split: if_splits)

lemma apply_updates_service:
  "apply_updates
     \<lparr>ud_title = map_option strip (upd_title u),
      ud_description =
        map_option (\<lambda>v. if v \<noteq> [] then Some (strip v) else None) (upd_description u),
      ud_status = upd_status u,
      ud_priority = upd_priority u\<rparr> t
   = t\<lparr>title := (case upd_title u of None \<Rightarrow> title t | Some v \<Rightarrow> strip v),
        description := (case upd_description u of
                          None \<Rightarrow> description t
                        | Some v \<Rightarrow> if v \<noteq> [] then Some (strip v) else None),
        status := (case upd_status u of None \<Rightarrow> status t | Some v \<Rightarrow> v),
        priority := (case upd_priority u of None \<Rightarrow> priority t | Some v \<Rightarrow> Some v)\<rparr>"
  by (cases "upd_title u"; cases "upd_description u"; cases "upd_status u";
      cases "upd_priority u") (simp_all add: apply_updates_def)

lemma update_found:
  assumes "find (\<lambda>r. task_id r = tid \<and> user_id r = uid) (rows s) = Some t"
  shows "update s now uid tid d
           = (Some ((apply_updates d t)\<lparr>updated_at := now\<rparr>),
              (logged (FindById uid tid) (logged (Update uid tid) s))
                \<lparr>rows := commit_row (\<lambda>r. task_id r = tid \<and> user_id r = uid)
                           ((apply_updates d t)\<lparr>updated_at := now\<rparr>) (rows s)\<rparr>)"
  using assms by (simp add: update_def find_by_id_eq rows_logged Let_def)

lemma update_task_absent:
  assumes "fst (find_by_id s uid tid) = None"
  shows "update_task s now uid tid u
           = (Inl (HTTPException 404 ''Task not found''), logged (FindById uid tid) s)"
  using assms by (simp add: update_task_def find_by_id_eq)

lemma update_task_found:
  assumes f: "fst (find_by_id s uid tid) = Some t"
  shows "update_task s now uid tid u =
     (if status t = ''deleted''
      then (Inl (HTTPException 400 ''Cannot update deleted task''), logged (FindById uid tid) s)
      else if (case upd_title u of None \<Rightarrow> False | Some v \<Rightarrow> length (strip v) = 0)
      then (Inl (HTTPException 400 ''Task title cannot be empty''), logged (FindById uid tid) s)
      else if (case upd_description u of None \<Rightarrow> False | Some v \<Rightarrow> length v > 10000)
      then (Inl (HTTPException 400 ''Task description cannot exceed 10,000 characters''),
            logged (FindById uid tid) s)
      else
        (Inr (Some (t\<lparr>title := (case upd_title u of None \<Rightarrow> title t | Some v \<Rightarrow> strip v),
               description := (case upd_description u of
                                 None \<Rightarrow> description t
                               | Some v \<Rightarrow> if v \<noteq> [] then Some (strip v) else None),
               status := (case upd_status u of None \<Rightarrow> status t | Some v \<Rightarrow> v),
               priority := (case upd_priority u of None \<Rightarrow> priority t | Some v \<Rightarrow> Some v),
               updated_at := now\<rparr>)),
         (logged (FindById uid tid) (logged (Update uid tid) (logged (FindById uid tid) s)))
           \<lparr>rows := commit_row (\<lambda>r. task_id r = tid \<and> user_id r = uid)
              (t\<lparr>title := (case upd_title u of None \<Rightarrow> title t | Some v \<Rightarrow> strip v),
                 description := (case upd_description u of
                                   None \<Rightarrow> description t
                                 | Some v \<Rightarrow> if v \<noteq> [] then Some (strip v) else None),
                 status := (case upd_status u of None \<Rightarrow> status t | Some v \<Rightarrow> v),
                 priority := (case upd_priority u of None \<Rightarrow> priority t | Some v \<Rightarrow> Some v),
                 updated_at := now\<rparr>) (rows s)\<rparr>))"
proof -
  from f have ff: "find (\<lambda>r. task_id r = tid \<and> user_id r = uid) (rows s) = Some t"
    by (simp add: find_by_id_eq)
  then have ff': "find (\<lambda>r. task_id r = tid \<and> user_id r = uid)
                    (rows (logged (FindById uid tid) s)) = Some t"
    by (simp add: rows_logged)
  show ?thesis
    unfolding update_task_def find_by_id_eq[of s] ff
    by (simp add: update_found[OF ff'] apply_updates_service rows_logged Let_def)
qed

lemma update_task_success:
  assumes a: "fst (update_task s now uid tid u) = Inr r"
  shows "\<exists>t i. fst (find_by_id s uid tid) = Some t \<and> i < length (rows s) \<and> rows s ! i = t
           \<and> r = Some (t\<lparr>title := (case upd_title u of None \<Rightarrow> title t | Some v \<Rightarrow> strip v),
                  description := (case upd_description u of
                                    None \<Rightarrow> description t
                                  | Some v \<Rightarrow> if v \<noteq> [] then Some (strip v) else None),
                  status := (case upd_status u of None \<Rightarrow> status t | Some v \<Rightarrow> v),
                  priority := (case upd_priority u of None \<Rightarrow> priority t | Some v \<Rightarrow> Some v),
                  updated_at := now\<rparr>)
           \<and> rows (snd (update_task s now uid tid u))
               = (rows s)[i := t\<lparr>title := (case upd_title u of None \<Rightarrow> title t | Some v \<Rightarrow> strip v),
                  description := (case upd_description u of
                                    None \<Rightarrow> description t
                                  | Some v \<Rightarrow> if v \<noteq> [] then Some (strip v) else None),
                  status := (case upd_status u of None \<Rightarrow> status t | Some v \<Rightarrow> v),
                  priority := (case upd_priority u of None \<Rightarrow> priority t | Some v \<Rightarrow> Some v),
                  updated_at := now\<rparr>]"
proof (cases "fst (find_by_id s uid tid)")
  case None
  with a show ?thesis by (simp add: update_task_absent)
next
  case (Some t)
  let ?T = "t\<lparr>title := (case upd_title u of None \<Rightarrow> title t | Some v \<Rightarrow> strip v),
                  description := (case upd_description u of
                                    None \<Rightarrow> description t
                                  | Some v \<Rightarrow> if v \<noteq> [] then Some (strip v) else None),
                  status := (case upd_status u of None \<Rightarrow> status t | Some v \<Rightarrow> v),
                  priority := (case upd_priority u of None \<Rightarrow> priority t | Some v \<Rightarrow> Some v),
                  updated_at := now\<rparr>"
  note e = update_task_found[OF Some, where now = now and u = u]
  from a have r: "r = Some ?T"
    unfolding e by (simp split: if_splits)
  from a have w: "rows (snd (update_task s now uid tid u))
                    = commit_row (\<lambda>r. task_id r = tid \<and> user_id r = uid) ?T (rows s)"
    unfolding e by (simp add: rows_logged split: if_splits)
  from find_by_id_row[OF Some, where y = ?T]
  have "\<exists>i<length (rows s). rows s ! i = t
          \<and> commit_row (\<lambda>r. task_id r = tid \<and> user_id r = uid) ?T (rows s) = (rows s)[i := ?T]"
    by (elim conjE)
  then obtain i where i: "i < length (rows s)" "rows s ! i = t"
    "commit_row (\<lambda>r. task_id r = tid \<and> user_id r = uid) ?T (rows s) = (rows s)[i := ?T]"
    by (elim exE conjE)
  from w i(3) have w': "rows (snd (update_task s now uid tid u)) = (rows s)[i := ?T]"
    by (rule trans)
  from Some i(1) i(2) r w' show ?thesis
    by (intro exI[of _ t] exI[of _ i] conjI)
qed

lemma update_task_failure:
  assumes a: "fst (update_task s now uid tid u) = Inl e"
  shows "rows (snd (update_task s now uid tid u)) = rows s"
proof (cases "fst (find_by_id s uid tid)")
  case None
  then show ?thesis by (simp add: update_task_absent rows_logged)
next
  case (Some t)
  note e = update_task_found[OF Some, where now = now and u = u]
  from a show ?thesis
    unfolding e by (simp add: rows_logged split: if_splits)
qed

lemma update_task_identity:
  "map (\<lambda>t. (task_id t, user_id t, created_at t)) (rows (snd (update_task s now uid tid u)))
     = map (\<lambda>t. (task_id t, user_id t, created_at t)) (rows s)"
proof (cases "fst (update_task s now uid tid u)")
  case (Inl e)
  then show ?thesis by (simp only: update_task_failure)
next
  case (Inr r)
  from update_task_success[OF Inr] obtain t i where
    i: "i < length (rows s)" and t: "rows s ! i = t"
    and w: "rows (snd (update_task s now uid tid u))
               = (rows s)[i := t\<lparr>title := (case upd_title u of None \<Rightarrow> title t | Some v \<Rightarrow> strip v),
                  description := (case upd_description u of
                                    None \<Rightarrow> description t
                                  | Some v \<Rightarrow> if v \<noteq> [] then Some (strip v) else None),
                  status := (case upd_status u of None \<Rightarrow> status t | Some v \<Rightarrow> v),
                  priority := (case upd_priority u of None \<Rightarrow> priority t | Some v \<Rightarrow> Some v),
                  updated_at := now\<rparr>]"
    by (elim exE conjE)
  have "(map (\<lambda>t. (task_id t, user_id t, created_at t)) (rows s))
          [i := (task_id t, user_id t, created_at t)]
        = map (\<lambda>t. (task_id t, user_id t, created_at t)) (rows s)"
    using i t by (simp add: list_update_same_conv)
  then show ?thesis
    unfolding w by (simp add: map_update)
qed

lemma delete_task_identity:
  "map (\<lambda>t. (task_id t, user_id t, created_at t)) (rows (snd (delete_task s now uid tid)))
     = map (\<lambda>t. (task_id t, user_id t, created_at t)) (rows s)"
proof (cases "fst (find_by_id s uid tid)")
  case None
  then show ?thesis by (simp only: delete_task_absent(2))
next
  case (Some t)
  show ?thesis
  proof (cases "status t = ''deleted''")
    case True
    with Some show ?thesis by (simp only: delete_task_already(2))
  next
    case False
    from Some have ff: "find (\<lambda>r. task_id r = tid \<and> user_id r = uid) (rows s) = Some t"
      by (simp add: find_by_id_eq)
    show ?thesis
      unfolding delete_task_live(2)[OF Some False, where now = now]
      by (rule map_commit_row[OF ff]) simp
  qed
qed

lemma create_task_keeps_rows:
  "take (length (rows s)) (rows (snd (create_task s g uid req))) = rows s"
proof -
  obtain r s1 where c: "create_task s g uid req = (r, s1)"
    by (cases "create_task s g uid req") auto
  from create_task_rows[OF c] show ?thesis
    unfolding c by (cases r) simp_all
qed

text \<open>
  C9. A successful \<^verbatim>\<open>update_task\<close> replaces exactly one row, the one
  \<^verbatim>\<open>find_by_id\<close> returns for the owner, by that row with \<^verbatim>\<open>title\<close>,
  \<^verbatim>\<open>description\<close>, \<^verbatim>\<open>status\<close> and \<^verbatim>\<open>priority\<close> each either left as it was (field
  not provided) or set from the request, and \<^verbatim>\<open>updated_at\<close> set to the current
  time; it returns that record. A failing \<^verbatim>\<open>update_task\<close> writes nothing. Across
  every service operation the triple of \<^verbatim>\<open>id\<close>, \<^verbatim>\<open>user_id\<close> and \<^verbatim>\<open>created_at\<close> of
  every stored row stays what it was: update and delete keep the list of triples,
  create keeps all the rows there were (it can only append one), list and get keep
  the rows.
\<close>

theorem update_writes_only_provided_fields:
  "(\<forall>r. fst (update_task s now uid tid u) = Inr r \<longrightarrow>
      (\<exists>t i. fst (find_by_id s uid tid) = Some t \<and> i < length (rows s) \<and> rows s ! i = t
         \<and> r = Some (t\<lparr>title := (case upd_title u of None \<Rightarrow> title t | Some v \<Rightarrow> strip v),
                description := (case upd_description u of
                                  None \<Rightarrow> description t
                                | Some v \<Rightarrow> if v \<noteq> [] then Some (strip v) else None),
                status := (case upd_status u of None \<Rightarrow> status t | Some v \<Rightarrow> v),
                priority := (case upd_priority u of None \<Rightarrow> priority t | Some v \<Rightarrow> Some v),
                updated_at := now\<rparr>)
         \<and> rows (snd (update_task s now uid tid u))
             = (rows s)[i := t\<lparr>title := (case upd_title u of None \<Rightarrow> title t | Some v \<Rightarrow> strip v),
                description := (case upd_description u of
                                  None \<Rightarrow> description t
                                | Some v \<Rightarrow> if v \<noteq> [] then Some (strip v) else None),
                status := (case upd_status u of None \<Rightarrow> status t | Some v \<Rightarrow> v),
                priority := (case upd_priority u of None \<Rightarrow> priority t | Some v \<Rightarrow> Some v),
                updated_at := now\<rparr>]))
   \<and> (\<forall>e. fst (update_task s now uid tid u) = Inl e \<longrightarrow>
        rows (snd (update_task s now uid tid u)) = rows s)
   \<and> map (\<lambda>t. (task_id t, user_id t, created_at t)) (rows (snd (update_task s now uid tid u)))
        = map (\<lambda>t. (task_id t, user_id t, created_at t)) (rows s)
   \<and> map (\<lambda>t. (task_id t, user_id t, created_at t)) (rows (snd (delete_task s now uid tid)))
        = map (\<lambda>t. (task_id t, user_id t, created_at t)) (rows s)
   \<and> take (length (rows s)) (rows (snd (create_task s g uid req))) = rows s
   \<and> rows (snd (list_tasks s uid)) = rows s
   \<and> rows (snd (get_task s uid tid)) = rows s"
proof (intro conjI allI impI)
  fix r assume "fst (update_task s now uid tid u) = Inr r"
  then show "\<exists>t i. fst (find_by_id s uid tid) = Some t \<and> i < length (rows s) \<and> rows s ! i = t
         \<and> r = Some (t\<lparr>title := (case upd_title u of None \<Rightarrow> title t | Some v \<Rightarrow> strip v),
                description := (case upd_description u of
                                  None \<Rightarrow> description t
                                | Some v \<Rightarrow> if v \<noteq> [] then Some (strip v) else None),
                status := (case upd_status u of None \<Rightarrow> status t | Some v \<Rightarrow> v),
                priority := (case upd_priority u of None \<Rightarrow> priority t | Some v \<Rightarrow> Some v),
                updated_at := now\<rparr>)
         \<and> rows (snd (update_task s now uid tid u))
             = (rows s)[i := t\<lparr>title := (case upd_title u of None \<Rightarrow> title t | Some v \<Rightarrow> strip v),
                description := (case upd_description u of
                                  None \<Rightarrow> description t
                                | Some v \<Rightarrow> if v \<noteq> [] then Some (strip v) else None),
                status := (case upd_status u of None \<Rightarrow> status t | Some v \<Rightarrow> v),
                priority := (case upd_priority u of None \<Rightarrow> priority t | Some v \<Rightarrow> Some v),
                updated_at := now\<rparr>]"
    by (rule update_task_success)
next
  fix e assume "fst (update_task s now uid tid u) = Inl e"
  then show "rows (snd (update_task s now uid tid u)) = rows s"
    by (rule update_task_failure)
next
  show "map (\<lambda>t. (task_id t, user_id t, created_at t)) (rows (snd (update_task s now uid tid u)))
        = map (\<lambda>t. (task_id t, user_id t, created_at t)) (rows s)"
    by (rule update_task_identity)
next
  show "map (\<lambda>t. (task_id t, user_id t, created_at t)) (rows (snd (delete_task s now uid tid)))
        = map (\<lambda>t. (task_id t, user_id t, created_at t)) (rows s)"
    by (rule delete_task_identity)
next
  show "take (length (rows s)) (rows (snd (create_task s g uid req))) = rows s"
    by (rule create_task_keeps_rows)
next
  show "rows (snd (list_tasks s uid)) = rows s"
    by (simp add: list_tasks_eq rows_logged)
next
  show "rows (snd (get_task s uid tid)) = rows s"
    by (simp add: get_task_def find_by_id_eq rows_logged split: option.splits)
qed

theorem update_writes_only_provided_fields_witness:
  "update_task
        \<lparr>rows = [\<lparr>task_id = 1, user_id = ''alice'', title = ''Old'',
                  description = Some ''notes'', status = ''pending'', priority = Some ''low'',
                  created_at = 5, updated_at = 5\<rparr>,
                 \<lparr>task_id = 2, user_id = ''bob'', title = ''Other'', description = None,
                  status = ''pending'', priority = Some ''high'', created_at = 6,
                  updated_at = 6\<rparr>],
         calls = []\<rparr> 20 ''alice'' 1
        \<lparr>upd_title = Some ''  New  '', upd_description = None,
         upd_status = Some ''completed'', upd_priority = None\<rparr>
     = (Inr (Some \<lparr>task_id = 1, user_id = ''alice'', title = ''New'',
                   description = Some ''notes'', status = ''completed'',
                   priority = Some ''low'', created_at = 5, updated_at = 20\<rparr>),
        \<lparr>rows = [\<lparr>task_id = 1, user_id = ''alice'', title = ''New'',
                  description = Some ''notes'', status = ''completed'',
                  priority = Some ''low'', created_at = 5, updated_at = 20\<rparr>,
                 \<lparr>task_id = 2, user_id = ''bob'', title = ''Other'', description = None,
                  status = ''pending'', priority = Some ''high'', created_at = 6,
                  updated_at = 6\<rparr>],
         calls = [FindById ''alice'' 1, Update ''alice'' 1, FindById ''alice'' 1]\<rparr>)"
  using update_writes_only_provided_fields
    [where uid = "''alice''" and tid = 1 and now = 20
       and u = "\<lparr>upd_title = Some ''  New  '', upd_description = None,
         upd_status = Some ''completed'', upd_priority = None\<rparr>"
       and s = "\<lparr>rows = [\<lparr>task_id = 1, user_id = ''alice'', title = ''Old'',
                  description = Some ''notes'', status = ''pending'', priority = Some ''low'',
                  created_at = 5, updated_at = 5\<rparr>,
                 \<lparr>task_id = 2, user_id = ''bob'', title = ''Other'', description = None,
                  status = ''pending'', priority = Some ''high'', created_at = 6,
                  updated_at = 6\<rparr>],
         calls = []\<rparr>"]
  by (simp add: update_task_def update_def apply_updates_def find_by_id_def logged_def
        strip_def isspace_def Let_def)

end
